theory Spec2Isabelle
  imports Main "HOL-Library.Multiset"
begin

section \<open>Request correlator (background.js)\<close>

text \<open>
  The service worker keeps the network log in the global array \<open>networkLogs\<close>.
  Each handler of a debugger event is modelled as a function from the log before the
  event to the log after it.  \<open>Date.now()\<close> is a parameter \<open>now\<close> of the handler that
  reads it.  Values the worker only stores and copies (a response body parsed by
  \<open>JSON.parse\<close>, the payload of an interaction or of a snapshot) have the type
  parameter \<open>'v\<close>.
\<close>

type_synonym headers = "(string \<times> string) list"

datatype 'v body_content = BodyText string | BodyParsed 'v

record 'v response =
  status :: int
  statusText :: string
  resp_headers :: headers
  mimeType :: string
  resp_timestamp :: int
  body :: "'v body_content option"
  bodySize :: "nat option"

record loading_finished =
  lf_timestamp :: int
  encodedDataLength :: int

record loading_failed =
  lx_timestamp :: int
  errorText :: string
  canceled :: "bool option"

record 'v log_entry =
  le_type :: string
  timestamp :: int
  requestId :: string
  url :: string
  le_method :: string
  headers :: headers
  postData :: "string option"
  tabId :: int
  response :: "'v response option"
  loadingFinished :: "loading_finished option"
  loadingFailed :: "loading_failed option"

text \<open>The \<open>params\<close> objects of the four protocol events, flattened.\<close>

record request_params =
  rq_requestId :: string
  rq_url :: string
  rq_method :: string
  rq_headers :: headers
  rq_postData :: "string option"

record response_params =
  rs_requestId :: string
  rs_status :: int
  rs_statusText :: string
  rs_headers :: headers
  rs_mimeType :: string

record finished_params =
  fn_requestId :: string
  fn_encodedDataLength :: int

record failed_params =
  fl_requestId :: string
  fl_errorText :: string
  fl_canceled :: "bool option"

text \<open>\<open>Array.prototype.findIndex\<close>: the first index whose element satisfies the
  predicate; \<open>None\<close> stands for the result \<open>-1\<close>.\<close>

fun findIndex :: "('a \<Rightarrow> bool) \<Rightarrow> 'a list \<Rightarrow> nat option" where
  "findIndex P [] = None"
| "findIndex P (x # xs) = (if P x then Some 0 else map_option Suc (findIndex P xs))"

text \<open>The predicate every handler passes to \<open>findIndex\<close>:
  \<open>log.requestId === params.requestId && log.type === 'request'\<close>.\<close>

definition isRequestFor :: "string \<Rightarrow> 'v log_entry \<Rightarrow> bool" where
  "isRequestFor rid log = (requestId log = rid \<and> le_type log = ''request'')"

definition handleNetworkRequest ::
  "int \<Rightarrow> request_params \<Rightarrow> int \<Rightarrow> 'v log_entry list \<Rightarrow> 'v log_entry list" where
  "handleNetworkRequest now params tab networkLogs =
     networkLogs @
       [\<lparr> le_type = ''request'', timestamp = now, requestId = rq_requestId params,
          url = rq_url params, le_method = rq_method params, headers = rq_headers params,
          postData = rq_postData params, tabId = tab,
          response = None, loadingFinished = None, loadingFailed = None \<rparr>]"

text \<open>
  \<open>handleNetworkResponse\<close> is asynchronous.  Up to its \<open>await\<close> it looks the entry
  up and stores the \<open>response\<close> sub-record; this part is \<open>handleNetworkResponse\<close>
  below, and it returns the index it found together with the log.
\<close>

definition newResponse :: "int \<Rightarrow> response_params \<Rightarrow> 'v response" where
  "newResponse now params =
     \<lparr> status = rs_status params, statusText = rs_statusText params,
       resp_headers = rs_headers params, mimeType = rs_mimeType params,
       resp_timestamp = now, body = None, bodySize = None \<rparr>"

definition handleNetworkResponse ::
  "int \<Rightarrow> response_params \<Rightarrow> 'v log_entry list \<Rightarrow> nat option \<times> 'v log_entry list" where
  "handleNetworkResponse now params networkLogs =
     (case findIndex (isRequestFor (rs_requestId params)) networkLogs of
        None \<Rightarrow> (None, networkLogs)
      | Some requestIndex \<Rightarrow>
          (Some requestIndex,
           networkLogs[requestIndex :=
             (networkLogs ! requestIndex)\<lparr> response := Some (newResponse now params) \<rparr>]))"

text \<open>\<open>String.prototype.includes\<close>.\<close>

fun str_includes :: "string \<Rightarrow> string \<Rightarrow> bool" where
  "str_includes [] sub = (sub = [])"
| "str_includes (c # cs) sub = (take (length sub) (c # cs) = sub \<or> str_includes cs sub)"

definition wantsBody :: "string \<Rightarrow> bool" where
  "wantsBody mime =
     (mime \<noteq> [] \<and>
      (str_includes mime ''json'' \<or> str_includes mime ''javascript'' \<or>
       str_includes mime ''text'' \<or> str_includes mime ''xml''))"

text \<open>
  The reply of the debugger command \<open>Network.getResponseBody\<close>: the command throws, or
  it resolves to nothing, or to an object with \<open>body\<close> and \<open>base64Encoded\<close>.
\<close>

record body_reply =
  rb_body :: string
  rb_base64Encoded :: bool

datatype body_fetch = FetchThrows | FetchEmpty | FetchReply body_reply

text \<open>
  The continuation after the \<open>await\<close>.  It runs only when an index was found and
  the MIME type asks for a body.  \<open>atob\<close> and \<open>JSON.parse\<close> belong to the platform and
  are parameters; \<open>None\<close> is their exception.  The continuation writes through
  \<open>networkLogs[requestIndex].response\<close> of the log as it is at that moment: where
  that entry or its \<open>response\<close> is missing the assignment throws inside the \<open>try\<close>
  and the log stays as it is.
\<close>

definition decodeBody ::
  "(string \<Rightarrow> string option) \<Rightarrow> (string \<Rightarrow> 'v option) \<Rightarrow> string \<Rightarrow> body_reply
     \<Rightarrow> 'v body_content" where
  "decodeBody atob jsonParse mime reply =
     (let bodyContent =
            (if rb_base64Encoded reply
             then (case atob (rb_body reply) of Some d \<Rightarrow> d | None \<Rightarrow> rb_body reply)
             else rb_body reply)
      in if str_includes mime ''json''
         then (case jsonParse bodyContent of Some v \<Rightarrow> BodyParsed v
                                           | None \<Rightarrow> BodyText bodyContent)
         else BodyText bodyContent)"

definition storeResponseBody ::
  "(string \<Rightarrow> string option) \<Rightarrow> (string \<Rightarrow> 'v option) \<Rightarrow> response_params \<Rightarrow> body_fetch
     \<Rightarrow> nat \<Rightarrow> 'v log_entry list \<Rightarrow> 'v log_entry list" where
  "storeResponseBody atob jsonParse params fetched requestIndex networkLogs =
     (if \<not> wantsBody (rs_mimeType params) then networkLogs
      else case fetched of
        FetchThrows \<Rightarrow> networkLogs
      | FetchEmpty \<Rightarrow> networkLogs
      | FetchReply reply \<Rightarrow>
          if rb_body reply = [] then networkLogs
          else if requestIndex < length networkLogs then
            (case response (networkLogs ! requestIndex) of
               None \<Rightarrow> networkLogs
             | Some r \<Rightarrow>
                 networkLogs[requestIndex :=
                   (networkLogs ! requestIndex)\<lparr> response :=
                     Some (r\<lparr> body := Some (decodeBody atob jsonParse (rs_mimeType params) reply),
                              bodySize := Some (length (rb_body reply)) \<rparr>) \<rparr>])
          else networkLogs)"

definition handleNetworkLoadingFinished ::
  "int \<Rightarrow> finished_params \<Rightarrow> 'v log_entry list \<Rightarrow> 'v log_entry list" where
  "handleNetworkLoadingFinished now params networkLogs =
     (case findIndex (isRequestFor (fn_requestId params)) networkLogs of
        None \<Rightarrow> networkLogs
      | Some requestIndex \<Rightarrow>
          networkLogs[requestIndex :=
            (networkLogs ! requestIndex)\<lparr> loadingFinished :=
              Some \<lparr> lf_timestamp = now,
                     encodedDataLength = fn_encodedDataLength params \<rparr> \<rparr>])"

definition handleNetworkLoadingFailed ::
  "int \<Rightarrow> failed_params \<Rightarrow> 'v log_entry list \<Rightarrow> 'v log_entry list" where
  "handleNetworkLoadingFailed now params networkLogs =
     (case findIndex (isRequestFor (fl_requestId params)) networkLogs of
        None \<Rightarrow> networkLogs
      | Some requestIndex \<Rightarrow>
          networkLogs[requestIndex :=
            (networkLogs ! requestIndex)\<lparr> loadingFailed :=
              Some \<lparr> lx_timestamp = now, errorText = fl_errorText params,
                     canceled = fl_canceled params \<rparr> \<rparr>])"


text \<open>The whole handler, when no other operation runs between its two parts.\<close>

definition handleNetworkResponseDone ::
  "(string \<Rightarrow> string option) \<Rightarrow> (string \<Rightarrow> 'v option) \<Rightarrow> int \<Rightarrow> response_params
     \<Rightarrow> body_fetch \<Rightarrow> 'v log_entry list \<Rightarrow> 'v log_entry list" where
  "handleNetworkResponseDone atob jsonParse now params fetched logs =
     (case handleNetworkResponse now params logs of
        (None, logs') \<Rightarrow> logs'
      | (Some requestIndex, logs') \<Rightarrow>
          storeResponseBody atob jsonParse params fetched requestIndex logs')"

section \<open>Session state and the operations of the service worker\<close>

text \<open>
  The globals of background.js and the two keys of \<open>chrome.storage.local\<close> that hold
  logs (\<open>None\<close>: the key is absent).  The global \<open>videoBlob\<close> is only ever assigned
  \<open>null\<close> and is left out.  An operation runs to its end before the next one
  starts, and the outcome of each browser call it awaits is an argument; only the
  response handler is split at its \<open>await\<close>, because what it does afterwards depends
  on the log as it is then.
\<close>

record 'v stored =
  st_timestamp :: int
  st_payload :: 'v

record 'v session =
  isRecording :: bool
  networkLogs :: "'v log_entry list"
  attachedTabs :: "int set"
  currentRecordingTabId :: "int option"
  videoStartTime :: "int option"
  stored_interactionLogs :: "'v stored list option"
  stored_elementSnapshots :: "'v stored list option"

text \<open>\<open>startRecording\<close>: \<open>ok\<close> says that \<open>chrome.debugger.attach\<close> and the two
  \<open>sendCommand\<close> calls all resolved; otherwise the function rethrows before it
  touches the globals.\<close>

definition startRecording :: "int \<Rightarrow> bool \<Rightarrow> 'v session \<Rightarrow> 'v session" where
  "startRecording tab ok s =
     (if ok
      then s\<lparr> attachedTabs := insert tab (attachedTabs s), isRecording := True,
              networkLogs := [] \<rparr>
      else s)"

text \<open>\<open>stopRecording\<close>: \<open>detached\<close> says that \<open>chrome.debugger.detach\<close> resolved; the
  \<open>catch\<close> branch only removes the tab.\<close>

definition stopRecording :: "int \<Rightarrow> bool \<Rightarrow> 'v session \<Rightarrow> 'v session" where
  "stopRecording tab detached s =
     (if tab \<in> attachedTabs s
      then (if detached
            then s\<lparr> attachedTabs := attachedTabs s - {tab}, isRecording := False \<rparr>
            else s\<lparr> attachedTabs := attachedTabs s - {tab} \<rparr>)
      else s\<lparr> isRecording := False \<rparr>)"

text \<open>\<open>stopVideoCapture\<close>: \<open>removed\<close> says that \<open>chrome.storage.local.remove\<close>
  resolved; every other failure inside is caught where it happens.\<close>

definition stopVideoCapture :: "int \<Rightarrow> bool \<Rightarrow> 'v session \<Rightarrow> 'v session" where
  "stopVideoCapture tab removed s =
     (if removed then s\<lparr> currentRecordingTabId := None, videoStartTime := None \<rparr> else s)"

text \<open>
  One call of \<open>chrome.tabCapture.getMediaStreamId\<close> inside the retry loop of
  \<open>startVideoCapture\<close>: it resolves, or it throws the "active stream" error (the two
  flags are the outcomes of the clean-up that follows), or it throws something else.
\<close>

datatype stream_outcome = StreamResolved | StreamActive bool bool | StreamOtherError

function streamLoop ::
  "(nat \<Rightarrow> stream_outcome) \<Rightarrow> int \<Rightarrow> nat \<Rightarrow> 'v session \<Rightarrow> 'v session" where
  "streamLoop attempt tab retryCount s =
     (if retryCount \<le> 2 then
        (case attempt retryCount of
           StreamResolved \<Rightarrow> s
         | StreamOtherError \<Rightarrow> s
         | StreamActive removed detached \<Rightarrow>
             if Suc retryCount > 2 then s
             else
               let s1 = stopVideoCapture tab removed s;
                   s2 = (if tab \<in> attachedTabs s1 then stopRecording tab detached s1 else s1)
               in streamLoop attempt tab (Suc retryCount) s2)
      else s)"
  by pat_completeness auto
termination
  by (relation "measure (\<lambda>(attempt, tab, retryCount, s). 3 - retryCount)") auto

declare streamLoop.simps [simp del]

record video_start =
  vs_detached :: bool
  vs_removed :: bool
  vs_tabAllowed :: bool
  vs_attempt :: "nat \<Rightarrow> stream_outcome"

text \<open>\<open>startVideoCapture\<close>, as far as it changes the globals.  \<open>vs_tabAllowed\<close> says
  that \<open>chrome.tabs.get\<close> resolved to a tab with an http or https URL.\<close>

definition startVideoCapture ::
  "int \<Rightarrow> int \<Rightarrow> video_start \<Rightarrow> 'v session \<Rightarrow> 'v session" where
  "startVideoCapture now tab out s =
     (let s1 = (if currentRecordingTabId s = Some tab \<or> isRecording s
                then stopVideoCapture tab (vs_removed out)
                       (if tab \<in> attachedTabs s then stopRecording tab (vs_detached out) s
                        else s)
                else s);
          s2 = s1\<lparr> currentRecordingTabId := Some tab, videoStartTime := Some now \<rparr>
      in if vs_tabAllowed out then streamLoop (vs_attempt out) tab 0 s2 else s2)"

definition clearAllLogs :: "'v session \<Rightarrow> 'v session" where
  "clearAllLogs s =
     s\<lparr> networkLogs := [], stored_interactionLogs := None,
        stored_elementSnapshots := None \<rparr>"

text \<open>The \<open>logInteraction\<close> message: \<open>{...message.data, timestamp: Date.now()}\<close> is
  pushed onto \<open>result.interactionLogs || []\<close> and written back; \<open>stored_ok\<close> says that
  the two storage calls resolved.\<close>

definition logInteractionMessage :: "int \<Rightarrow> 'v \<Rightarrow> bool \<Rightarrow> 'v session \<Rightarrow> 'v session" where
  "logInteractionMessage now data stored_ok s =
     (if stored_ok
      then s\<lparr> stored_interactionLogs :=
                Some ((case stored_interactionLogs s of None \<Rightarrow> [] | Some logs \<Rightarrow> logs)
                      @ [\<lparr> st_timestamp = now, st_payload = data \<rparr>]) \<rparr>
      else s)"

text \<open>The content script's \<open>captureCurrentElements\<close> writes a snapshot the same way.\<close>

definition captureElementsStored :: "int \<Rightarrow> 'v \<Rightarrow> bool \<Rightarrow> 'v session \<Rightarrow> 'v session" where
  "captureElementsStored now data stored_ok s =
     (if stored_ok
      then s\<lparr> stored_elementSnapshots :=
                Some ((case stored_elementSnapshots s of None \<Rightarrow> [] | Some snaps \<Rightarrow> snaps)
                      @ [\<lparr> st_timestamp = now, st_payload = data \<rparr>]) \<rparr>
      else s)"

text \<open>
  \<open>onDebuggerEvent\<close>.  For \<open>Network.responseReceived\<close> it runs
  \<open>handleNetworkResponse\<close> up to the \<open>await\<close>; the rest of that handler is the
  operation \<open>BodyFetched\<close> below, which may come after other operations.
\<close>

datatype debugger_event =
    RequestWillBeSent request_params
  | ResponseReceived response_params
  | LoadingFinished finished_params
  | LoadingFailed failed_params
  | OtherMethod

definition onDebuggerEvent :: "int \<Rightarrow> int \<Rightarrow> debugger_event \<Rightarrow> 'v session \<Rightarrow> 'v session" where
  "onDebuggerEvent now source ev s =
     (if source \<notin> attachedTabs s then s
      else case ev of
        RequestWillBeSent params \<Rightarrow>
          s\<lparr> networkLogs := handleNetworkRequest now params source (networkLogs s) \<rparr>
      | ResponseReceived params \<Rightarrow>
          s\<lparr> networkLogs := snd (handleNetworkResponse now params (networkLogs s)) \<rparr>
      | LoadingFinished params \<Rightarrow>
          s\<lparr> networkLogs := handleNetworkLoadingFinished now params (networkLogs s) \<rparr>
      | LoadingFailed params \<Rightarrow>
          s\<lparr> networkLogs := handleNetworkLoadingFailed now params (networkLogs s) \<rparr>
      | OtherMethod \<Rightarrow> s)"

text \<open>The rest of \<open>handleNetworkResponse\<close> after its \<open>await\<close>, with the index that the
  first part has found.\<close>

definition onBodyFetched ::
  "(string \<Rightarrow> string option) \<Rightarrow> (string \<Rightarrow> 'v option) \<Rightarrow> response_params \<Rightarrow> body_fetch
     \<Rightarrow> nat \<Rightarrow> 'v session \<Rightarrow> 'v session" where
  "onBodyFetched atob jsonParse params fetched requestIndex s =
     s\<lparr> networkLogs :=
          storeResponseBody atob jsonParse params fetched requestIndex (networkLogs s) \<rparr>"

text \<open>The listener of \<open>chrome.debugger.onDetach\<close>.\<close>

definition onDetach :: "int \<Rightarrow> 'v session \<Rightarrow> 'v session" where
  "onDetach source s =
     (if source \<in> attachedTabs s
      then s\<lparr> attachedTabs := attachedTabs s - {source}, isRecording := False \<rparr>
      else s)"

text \<open>The listener of \<open>chrome.tabs.onRemoved\<close>.\<close>

definition onTabRemoved :: "int \<Rightarrow> bool \<Rightarrow> 'v session \<Rightarrow> 'v session" where
  "onTabRemoved tab detached s =
     (if tab \<in> attachedTabs s then stopRecording tab detached s else s)"

text \<open>
  Everything that can reach the service worker: the actions of the message handler,
  the debugger events with the continuation of the response handler, the two
  listeners and the message \<open>video-data-ready\<close>, which touches the blob store only.
  \<open>exportLogs\<close> and \<open>getStatus\<close> only read the globals (what the export produces is
  \<open>exportAllLogs\<close> below).
\<close>

datatype 'v operation =
    StartRecording int bool
  | StopRecording int bool
  | StartVideoCapture int video_start
  | StopVideoCapture int bool
  | GetStatus
  | ExportLogs int string
  | ClearLogs
  | LogInteraction 'v bool
  | CaptureElements 'v bool
  | DebuggerEvent int debugger_event
  | BodyFetched response_params body_fetch nat
  | DebuggerDetached int
  | TabRemoved int bool
  | VideoDataReady
  | UnknownAction

fun perform ::
  "(string \<Rightarrow> string option) \<Rightarrow> (string \<Rightarrow> 'v option) \<Rightarrow> int \<Rightarrow> 'v operation
     \<Rightarrow> 'v session \<Rightarrow> 'v session" where
  "perform atob jsonParse now (StartRecording tab ok) s = startRecording tab ok s"
| "perform atob jsonParse now (StopRecording tab detached) s = stopRecording tab detached s"
| "perform atob jsonParse now (StartVideoCapture tab out) s = startVideoCapture now tab out s"
| "perform atob jsonParse now (StopVideoCapture tab removed) s = stopVideoCapture tab removed s"
| "perform atob jsonParse now GetStatus s = s"
| "perform atob jsonParse now (ExportLogs tab mode) s = s"
| "perform atob jsonParse now ClearLogs s = clearAllLogs s"
| "perform atob jsonParse now (LogInteraction data ok) s = logInteractionMessage now data ok s"
| "perform atob jsonParse now (CaptureElements data ok) s = captureElementsStored now data ok s"
| "perform atob jsonParse now (DebuggerEvent source ev) s = onDebuggerEvent now source ev s"
| "perform atob jsonParse now (BodyFetched params fetched requestIndex) s =
     onBodyFetched atob jsonParse params fetched requestIndex s"
| "perform atob jsonParse now (DebuggerDetached source) s = onDetach source s"
| "perform atob jsonParse now (TabRemoved tab detached) s = onTabRemoved tab detached s"
| "perform atob jsonParse now VideoDataReady s = s"
| "perform atob jsonParse now UnknownAction s = s"

text \<open>
  An entry of the log before an operation is still present after it when the log has
  not become shorter and the entry at the same index is the same request: the fields
  written when the entry was created are unchanged (later phases fill the
  sub-records of the entry in place).
\<close>

definition sameRequest :: "'v log_entry \<Rightarrow> 'v log_entry \<Rightarrow> bool" where
  "sameRequest e e' =
     (le_type e' = le_type e \<and> timestamp e' = timestamp e \<and> requestId e' = requestId e \<and>
      url e' = url e \<and> le_method e' = le_method e \<and> headers e' = headers e \<and>
      postData e' = postData e \<and> tabId e' = tabId e)"

definition entriesKept :: "'v log_entry list \<Rightarrow> 'v log_entry list \<Rightarrow> bool" where
  "entriesKept old new =
     (length old \<le> length new \<and> list_all2 sameRequest old (take (length old) new))"

text \<open>A sequence of operations, each with the clock reading of its handler.\<close>

definition run ::
  "(string \<Rightarrow> string option) \<Rightarrow> (string \<Rightarrow> 'v option) \<Rightarrow> (int \<times> 'v operation) list
     \<Rightarrow> 'v session \<Rightarrow> 'v session" where
  "run atob jsonParse ops s = foldl (\<lambda>s' (now, op). perform atob jsonParse now op s') s ops"

text \<open>The request ids for which a response event, a loading-finished event, or a
  loading-failed event occurs among the operations.\<close>

fun respondedId :: "'v operation \<Rightarrow> string option" where
  "respondedId (DebuggerEvent source (ResponseReceived params)) = Some (rs_requestId params)"
| "respondedId _ = None"

fun finishedId :: "'v operation \<Rightarrow> string option" where
  "finishedId (DebuggerEvent source (LoadingFinished params)) = Some (fn_requestId params)"
| "finishedId _ = None"

fun failedId :: "'v operation \<Rightarrow> string option" where
  "failedId (DebuggerEvent source (LoadingFailed params)) = Some (fl_requestId params)"
| "failedId _ = None"

definition respondedIds :: "(int \<times> 'v operation) list \<Rightarrow> string list" where
  "respondedIds ops = List.map_filter (\<lambda>(now, op). respondedId op) ops"

definition finishedIds :: "(int \<times> 'v operation) list \<Rightarrow> string list" where
  "finishedIds ops = List.map_filter (\<lambda>(now, op). finishedId op) ops"

definition failedIds :: "(int \<times> 'v operation) list \<Rightarrow> string list" where
  "failedIds ops = List.map_filter (\<lambda>(now, op). failedId op) ops"

text \<open>
  Used in the proofs about the sub-records: every entry that carries a \<open>response\<close>
  has its request id in \<open>R\<close>, every entry that carries a \<open>loadingFinished\<close> has it
  in \<open>F\<close>, and every entry that carries a \<open>loadingFailed\<close> has it in \<open>X\<close>.
\<close>

definition subRecordsFrom ::
  "string set \<Rightarrow> string set \<Rightarrow> string set \<Rightarrow> 'v log_entry list \<Rightarrow> bool" where
  "subRecordsFrom R F X logs =
     (\<forall>e\<in>set logs. (response e \<noteq> None \<longrightarrow> requestId e \<in> R) \<and>
                    (loadingFinished e \<noteq> None \<longrightarrow> requestId e \<in> F) \<and>
                    (loadingFailed e \<noteq> None \<longrightarrow> requestId e \<in> X))"

definition opResponded :: "'v operation \<Rightarrow> string set" where
  "opResponded op = set_option (respondedId op)"

definition opFinished :: "'v operation \<Rightarrow> string set" where
  "opFinished op = set_option (finishedId op)"

definition opFailed :: "'v operation \<Rightarrow> string set" where
  "opFailed op = set_option (failedId op)"

section \<open>Export document and event aggregation (background.js)\<close>

record video_data =
  hasVideo :: bool
  videoFileName :: "string option"
  videoSize :: "nat option"

record summary =
  totalNetworkRequests :: nat
  totalInteractions :: nat
  totalElementSnapshots :: nat

record 'v export_data =
  exportDate :: string
  x_tabId :: int
  x_mode :: string
  x_networkLogs :: "'v log_entry list"
  x_interactionLogs :: "'v stored list"
  x_elementSnapshots :: "'v stored list"
  videoData :: video_data
  x_summary :: summary

text \<open>The objects pushed onto \<open>allEvents\<close>: \<open>{ type, timestamp, data }\<close>.\<close>

datatype 'v event_source =
    NetworkLog "'v log_entry"
  | InteractionLog "'v stored"
  | Snapshot "'v stored"

record 'v event =
  ev_type :: string
  ev_timestamp :: int
  ev_data :: "'v event_source"

text \<open>The three \<open>forEach\<close> loops.  The guards \<open>if (data.networkLogs)\<close> hold for every
  array, also the empty one.\<close>

definition collectEvents :: "'v export_data \<Rightarrow> 'v event list" where
  "collectEvents data =
     map (\<lambda>log. \<lparr> ev_type = ''network'', ev_timestamp = timestamp log,
                   ev_data = NetworkLog log \<rparr>) (x_networkLogs data) @
     map (\<lambda>log. \<lparr> ev_type = ''interaction'', ev_timestamp = st_timestamp log,
                   ev_data = InteractionLog log \<rparr>) (x_interactionLogs data) @
     map (\<lambda>snapshot. \<lparr> ev_type = ''snapshot'', ev_timestamp = st_timestamp snapshot,
                        ev_data = Snapshot snapshot \<rparr>) (x_elementSnapshots data)"

text \<open>
  \<open>Array.prototype.sort\<close> with a comparison function.  The sort of the platform is
  stable (ECMAScript 2019), and the result of a stable sort under a consistent
  comparison is unique; it is computed here by inserting each element, from the last to
  the first, in front of the first element that does not compare below it.
\<close>

fun insertSorted :: "('a \<Rightarrow> 'a \<Rightarrow> int) \<Rightarrow> 'a \<Rightarrow> 'a list \<Rightarrow> 'a list" where
  "insertSorted cmp x [] = [x]"
| "insertSorted cmp x (y # ys) =
     (if cmp x y \<le> 0 then x # y # ys else y # insertSorted cmp x ys)"

definition arraySort :: "('a \<Rightarrow> 'a \<Rightarrow> int) \<Rightarrow> 'a list \<Rightarrow> 'a list" where
  "arraySort cmp xs = foldr (insertSorted cmp) xs []"

text \<open>The comparison function \<open>(a, b) => a.timestamp - b.timestamp\<close>.\<close>

definition byTimestamp :: "'v event \<Rightarrow> 'v event \<Rightarrow> int" where
  "byTimestamp a b = ev_timestamp a - ev_timestamp b"

text \<open>
  The block that both HTML generators run before they fill the template.  Each of the two
  conditional expressions calls \<open>Date.now()\<close> on its own when there is no event:
  \<open>now1\<close> and \<open>now2\<close> are these two readings of the clock.
\<close>

record 'v timeline =
  allEvents :: "'v event list"
  startTime :: int
  endTime :: int
  duration :: int

definition sortedTimeline :: "int \<Rightarrow> int \<Rightarrow> 'v export_data \<Rightarrow> 'v timeline" where
  "sortedTimeline now1 now2 data =
     (let sorted_events = arraySort byTimestamp (collectEvents data);
          first_ts = (if length sorted_events > 0 then ev_timestamp (sorted_events ! 0) else now1);
          last_ts = (if length sorted_events > 0
                  then ev_timestamp (sorted_events ! (length sorted_events - 1)) else now2)
      in \<lparr> allEvents = sorted_events, startTime = first_ts, endTime = last_ts,
           duration = last_ts - first_ts \<rparr>)"

text \<open>\<open>generateImprovedTimelineHTML\<close>: the document of the logs-only mode is the
  template filled with these values.\<close>

definition generateImprovedTimelineHTML :: "int \<Rightarrow> int \<Rightarrow> 'v export_data \<Rightarrow> 'v timeline" where
  "generateImprovedTimelineHTML now1 now2 data = sortedTimeline now1 now2 data"


section \<open>Video timeline document (background.js)\<close>

record blob =
  blob_size :: nat
  blob_type :: string

definition maxDataUrlSize :: nat where
  "maxDataUrlSize = 10 * 1024 * 1024"

text \<open>A string in a condition: \<open>null\<close> and the empty string are falsy.\<close>

definition truthy :: "string option \<Rightarrow> bool" where
  "truthy v = (case v of None \<Rightarrow> False | Some str \<Rightarrow> str \<noteq> [])"

text \<open>
  The source of the video.  \<open>readAsDataURL\<close> is the outcome of the \<open>FileReader\<close> on the
  blob: the data URL, or \<open>None\<close> when \<open>onerror\<close> fires first and the promise resolves
  to \<open>null\<close>.
\<close>

definition videoSource :: "string option \<Rightarrow> blob option \<Rightarrow> string option \<Rightarrow> string option" where
  "videoSource readAsDataURL videoBlob fileName =
     (case videoBlob of
        None \<Rightarrow> None
      | Some b \<Rightarrow>
          if blob_size b < maxDataUrlSize then readAsDataURL
          else Some (if truthy fileName then the fileName else ''video.webm''))"

text \<open>
  What the template puts into the element \<open>videoContainer\<close>: the \<open>video\<close> element
  with its \<open>src\<close>, or the placeholder "Video recording not available" with a
  second line of text.
\<close>

datatype video_container = VideoElement string | Placeholder string

definition videoContainer :: "string option \<Rightarrow> string option \<Rightarrow> video_container" where
  "videoContainer videoSrc fileName =
     (if truthy videoSrc then VideoElement (the videoSrc)
      else Placeholder
             (if truthy fileName
              then ''Video file: '' @ the fileName @ '' (place in same directory as this HTML file)''
              else ''Enable video mode to capture screen recording''))"

record 'v video_timeline =
  vt_timeline :: "'v timeline"
  videoSrc :: "string option"
  container :: video_container
  controls :: bool
  hasVideoScript :: bool

text \<open>\<open>generateVideoTimelineHTML\<close>: the document of the video mode is the template
  filled with these values; \<open>controls\<close> says whether the block \<open>video-controls\<close> is
  there, \<open>hasVideoScript\<close> is the constant \<open>hasVideo\<close> of the script.\<close>

definition generateVideoTimelineHTML ::
  "string option \<Rightarrow> int \<Rightarrow> int \<Rightarrow> 'v export_data \<Rightarrow> blob option \<Rightarrow> string option
     \<Rightarrow> 'v video_timeline" where
  "generateVideoTimelineHTML readAsDataURL now1 now2 data videoBlob fileName =
     (let src = videoSource readAsDataURL videoBlob fileName
      in \<lparr> vt_timeline = sortedTimeline now1 now2 data, videoSrc = src,
           container = videoContainer src fileName, controls = truthy src,
           hasVideoScript = truthy src \<rparr>)"

section \<open>Export (background.js)\<close>

text \<open>
  What \<open>getVideoBlob\<close> hands to \<open>exportAllLogs\<close>.  The promise is rejected (the request
  on the object store fails), or it resolves to \<open>null\<close> (nothing stored, or the
  database does not open), or to the stored value, which is a \<open>Blob\<close> or some other
  truthy value.
\<close>

datatype retrieved = NothingStored | NotABlob | IsBlob blob

datatype video_lookup = LookupRejected | LookupResolved retrieved

text \<open>A number inside a template literal: decimal digits.\<close>

function showNat :: "nat \<Rightarrow> string" where
  "showNat n =
     (if n < 10 then [char_of (48 + n)]
      else showNat (n div 10) @ [char_of (48 + n mod 10)])"
  by pat_completeness auto
termination
  by (relation "measure id") auto

declare showNat.simps [simp del]

definition showInt :: "int \<Rightarrow> string" where
  "showInt i = (if i < 0 then CHR ''-'' # showNat (nat (- i)) else showNat (nat i))"

text \<open>
  JSON values.  \<open>JSON.stringify\<close> and \<open>JSON.parse\<close> belong to the platform and are
  parameters; \<open>toJson\<close> is the value that \<open>JSON.stringify\<close> walks through for an
  export document: the properties in the order of the object literals of the source,
  a property whose value is \<open>undefined\<close> left out.  \<open>conv\<close> gives the JSON value of a
  value the worker only stores.
\<close>

datatype json =
    JNull
  | JBool bool
  | JNum int
  | JStr string
  | JArr "json list"
  | JObj "(string \<times> json) list"

definition optional :: "string \<Rightarrow> ('a \<Rightarrow> json) \<Rightarrow> 'a option \<Rightarrow> (string \<times> json) list" where
  "optional key f v = (case v of None \<Rightarrow> [] | Some x \<Rightarrow> [(key, f x)])"

definition headersJson :: "headers \<Rightarrow> json" where
  "headersJson hs = JObj (map (\<lambda>(name, val). (name, JStr val)) hs)"

definition bodyJson :: "('v \<Rightarrow> json) \<Rightarrow> 'v body_content \<Rightarrow> json" where
  "bodyJson conv b = (case b of BodyText str \<Rightarrow> JStr str | BodyParsed v \<Rightarrow> conv v)"

definition responseJson :: "('v \<Rightarrow> json) \<Rightarrow> 'v response \<Rightarrow> json" where
  "responseJson conv r =
     JObj ([(''status'', JNum (status r)), (''statusText'', JStr (statusText r)),
            (''headers'', headersJson (resp_headers r)), (''mimeType'', JStr (mimeType r)),
            (''timestamp'', JNum (resp_timestamp r))]
           @ optional ''body'' (bodyJson conv) (body r)
           @ optional ''bodySize'' (\<lambda>n. JNum (int n)) (bodySize r))"

definition finishedJson :: "loading_finished \<Rightarrow> json" where
  "finishedJson f =
     JObj [(''timestamp'', JNum (lf_timestamp f)),
           (''encodedDataLength'', JNum (encodedDataLength f))]"

definition failedJson :: "loading_failed \<Rightarrow> json" where
  "failedJson f =
     JObj ([(''timestamp'', JNum (lx_timestamp f)), (''errorText'', JStr (errorText f))]
           @ optional ''canceled'' JBool (canceled f))"

definition entryJson :: "('v \<Rightarrow> json) \<Rightarrow> 'v log_entry \<Rightarrow> json" where
  "entryJson conv e =
     JObj ([(''type'', JStr (le_type e)), (''timestamp'', JNum (timestamp e)),
            (''requestId'', JStr (requestId e)), (''url'', JStr (url e)),
            (''method'', JStr (le_method e)), (''headers'', headersJson (headers e))]
           @ optional ''postData'' JStr (postData e)
           @ [(''tabId'', JNum (tabId e))]
           @ optional ''response'' (responseJson conv) (response e)
           @ optional ''loadingFinished'' finishedJson (loadingFinished e)
           @ optional ''loadingFailed'' failedJson (loadingFailed e))"

text \<open>A stored interaction is \<open>{...data, timestamp}\<close>: the properties of the payload,
  with \<open>timestamp\<close> replaced where the payload had one and added at the end otherwise.
  A stored snapshot is \<open>{timestamp, url, elements, viewport}\<close>.\<close>

fun setProperty :: "string \<Rightarrow> json \<Rightarrow> (string \<times> json) list \<Rightarrow> (string \<times> json) list" where
  "setProperty key v [] = [(key, v)]"
| "setProperty key v ((k, w) # ps) =
     (if k = key then (k, v) # ps else (k, w) # setProperty key v ps)"

definition interactionJson :: "('v \<Rightarrow> json) \<Rightarrow> 'v stored \<Rightarrow> json" where
  "interactionJson conv st =
     JObj (setProperty ''timestamp'' (JNum (st_timestamp st))
             (case conv (st_payload st) of JObj ps \<Rightarrow> ps | _ \<Rightarrow> []))"

definition snapshotJson :: "('v \<Rightarrow> json) \<Rightarrow> 'v stored \<Rightarrow> json" where
  "snapshotJson conv st =
     JObj ((''timestamp'', JNum (st_timestamp st)) #
           (case conv (st_payload st) of JObj ps \<Rightarrow> ps | _ \<Rightarrow> []))"

definition videoDataJson :: "video_data \<Rightarrow> json" where
  "videoDataJson v =
     (if hasVideo v
      then JObj [(''hasVideo'', JBool True),
                 (''videoFileName'', (case videoFileName v of None \<Rightarrow> JNull
                                                             | Some name \<Rightarrow> JStr name)),
                 (''videoSize'', (case videoSize v of None \<Rightarrow> JNull
                                                     | Some n \<Rightarrow> JNum (int n)))]
      else JObj [(''hasVideo'', JBool False)])"

definition summaryJson :: "summary \<Rightarrow> json" where
  "summaryJson sm =
     JObj [(''totalNetworkRequests'', JNum (int (totalNetworkRequests sm))),
           (''totalInteractions'', JNum (int (totalInteractions sm))),
           (''totalElementSnapshots'', JNum (int (totalElementSnapshots sm)))]"

definition toJson :: "('v \<Rightarrow> json) \<Rightarrow> 'v export_data \<Rightarrow> json" where
  "toJson conv data =
     JObj [(''exportDate'', JStr (exportDate data)),
           (''tabId'', JNum (x_tabId data)),
           (''mode'', JStr (x_mode data)),
           (''networkLogs'', JArr (map (entryJson conv) (x_networkLogs data))),
           (''interactionLogs'', JArr (map (interactionJson conv) (x_interactionLogs data))),
           (''elementSnapshots'', JArr (map (snapshotJson conv) (x_elementSnapshots data))),
           (''videoData'', videoDataJson (videoData data)),
           (''summary'', summaryJson (x_summary data))]"






text \<open>
  The outcomes of what \<open>exportAllLogs\<close> awaits and the readings of the clock, in the
  order of the source: \<open>chrome.storage.local.get\<close>, \<open>getVideoBlob\<close>, the \<open>FileReader\<close>
  on the video (\<open>None\<close>: the promise is rejected), the download of the JSON file,
  the \<open>FileReader\<close> inside \<open>generateVideoTimelineHTML\<close> and the download of the HTML
  file (\<open>False\<close>: the call throws or is rejected).  A failure of the download of the
  video is caught where it happens and changes nothing that follows.
\<close>

record 'v export_env =
  storageRead :: bool
  lookedUp :: video_lookup
  videoDataUrl :: "string option"
  nowVideo :: int
  isoDate :: string
  nowFiles :: int
  toJsonValue :: "'v \<Rightarrow> json"
  jsonStringify :: "json \<Rightarrow> string"
  jsonSaved :: bool
  htmlDataUrl :: "string option"
  nowFirst :: int
  nowLast :: int
  htmlSaved :: bool

datatype 'v document = LogsDocument "'v timeline" | VideoDocument "'v video_timeline"

text \<open>A call of \<open>chrome.downloads.download\<close>: what is saved and the file name.\<close>

datatype 'v download =
    VideoFile string string
  | JsonFile string string
  | HtmlFile "'v document" string

record 'v export_run =
  exported :: "'v export_data option"
  downloads :: "'v download list"
  completed :: bool

text \<open>
  The block \<open>if (mode === 'video')\<close>: the values of \<open>videoBlob\<close> and \<open>videoFileName\<close>
  after it and the download it started; \<open>None\<close> when \<open>getVideoBlob\<close> is rejected.
  A blob above 500 MB only gets the warning of the third branch.
\<close>

definition retrieveVideo ::
  "'v export_env \<Rightarrow> string \<Rightarrow> (blob option \<times> string option \<times> 'v download list) option" where
  "retrieveVideo env mode =
     (if mode \<noteq> ''video'' then Some (None, None, [])
      else case lookedUp env of
        LookupRejected \<Rightarrow> None
      | LookupResolved NothingStored \<Rightarrow> Some (None, None, [])
      | LookupResolved NotABlob \<Rightarrow> Some (None, None, [])
      | LookupResolved (IsBlob b) \<Rightarrow>
          if blob_size b = 0 then Some (None, None, [])
          else if blob_size b > 500 * 1024 * 1024 then Some (Some b, None, [])
          else
            let name = ''capture_all_video_'' @ showInt (nowVideo env) @ ''.webm''
            in if truthy (videoDataUrl env)
               then Some (Some b, Some name, [VideoFile (the (videoDataUrl env)) name])
               else Some (Some b, Some name, []))"

definition exportAllLogs :: "'v export_env \<Rightarrow> int \<Rightarrow> string \<Rightarrow> 'v session \<Rightarrow> 'v export_run" where
  "exportAllLogs env tab mode s =
     (if \<not> storageRead env then \<lparr> exported = None, downloads = [], completed = False \<rparr>
      else case retrieveVideo env mode of
        None \<Rightarrow> \<lparr> exported = None, downloads = [], completed = False \<rparr>
      | Some (videoBlob, fileName, started) \<Rightarrow>
          let interactions = (case stored_interactionLogs s of None \<Rightarrow> [] | Some logs \<Rightarrow> logs);
              snapshots = (case stored_elementSnapshots s of None \<Rightarrow> [] | Some snaps \<Rightarrow> snaps);
              exportData =
                \<lparr> exportDate = isoDate env, x_tabId = tab, x_mode = mode,
                  x_networkLogs = networkLogs s,
                  x_interactionLogs = interactions,
                  x_elementSnapshots = snapshots,
                  videoData =
                    (case videoBlob of
                       Some b \<Rightarrow> \<lparr> hasVideo = True, videoFileName = fileName,
                                   videoSize = Some (blob_size b) \<rparr>
                     | None \<Rightarrow> \<lparr> hasVideo = False, videoFileName = None, videoSize = None \<rparr>),
                  x_summary =
                    \<lparr> totalNetworkRequests = length (networkLogs s),
                      totalInteractions = length interactions,
                      totalElementSnapshots = length snapshots \<rparr> \<rparr>;
              jsonFile =
                JsonFile (jsonStringify env (toJson (toJsonValue env) exportData))
                  (''capture_all_logs_'' @ showInt (nowFiles env) @ ''.json'')
          in if \<not> jsonSaved env
             then \<lparr> exported = Some exportData, downloads = started @ [jsonFile],
                    completed = False \<rparr>
             else
               let htmlContent =
                     (if mode = ''video''
                      then VideoDocument
                             (generateVideoTimelineHTML (htmlDataUrl env) (nowFirst env)
                                (nowLast env) exportData videoBlob fileName)
                      else LogsDocument
                             (generateImprovedTimelineHTML (nowFirst env) (nowLast env)
                                exportData));
                   htmlFile =
                     HtmlFile htmlContent
                       (''capture_all_timeline_'' @ showInt (nowFiles env) @ ''.html'')
               in \<lparr> exported = Some exportData, downloads = started @ [jsonFile, htmlFile],
                    completed = htmlSaved env \<rparr>)"

section \<open>Content script: recording an input event\<close>

text \<open>
  What the content script reads of a DOM element.  \<open>el_value\<close> is the property
  \<open>value\<close> (\<open>None\<close>: the element has none); the attribute \<open>value\<close> of the markup is
  an entry of \<open>attributes\<close>.  \<open>previousTags\<close> lists the tag names of the previous
  element siblings, \<open>isBody\<close> says that the element is \<open>document.body\<close>, and the three
  style fields are those of \<open>window.getComputedStyle\<close>.  An element is a node with the
  chain of its \<open>parentElement\<close>s, the nearest first.
\<close>

record rect =
  rect_top :: int
  rect_left :: int
  rect_width :: int
  rect_height :: int

record node =
  tagName :: string
  node_id :: string
  className :: string
  textContent :: string
  attributes :: "(string \<times> string) list"
  boundingClientRect :: rect
  display :: string
  visibility :: string
  opacity :: string
  el_value :: "string option"
  previousTags :: "string list"
  isBody :: bool

record element =
  self :: node
  parents :: "node list"

text \<open>\<open>toLowerCase\<close> on the letters A to Z; other characters stay as they are.\<close>

definition lowerChar :: "char \<Rightarrow> char" where
  "lowerChar c =
     (let n = (of_char c :: nat) in if 65 \<le> n \<and> n \<le> 90 then char_of (n + 32) else c)"

definition toLowerCase :: "string \<Rightarrow> string" where
  "toLowerCase str = map lowerChar str"

text \<open>The loop of \<open>getXPath\<close>: \<open>nodes\<close> is \<open>current\<close> followed by its parents.\<close>

fun xpathLoop :: "node list \<Rightarrow> string \<Rightarrow> string" where
  "xpathLoop [] path = path"
| "xpathLoop (current # rest) path =
     (if isBody current then path
      else
        let index = 1 + length (filter (\<lambda>tag. tag = tagName current) (previousTags current))
        in xpathLoop rest
             (''/'' @ toLowerCase (tagName current) @ ''['' @ showNat index @ '']'' @ path))"

definition getXPath :: "element \<Rightarrow> string" where
  "getXPath element =
     (if node_id (self element) \<noteq> [] then ''//*[@id=\"'' @ node_id (self element) @ ''\"]''
      else if isBody (self element) then ''/html/body''
      else ''/html/body'' @ xpathLoop (self element # parents element) [])"

text \<open>\<open>className.trim().split(/\s+/)\<close>: the maximal runs of characters that are not
  white space; for a string of white space only, the single empty string.\<close>

definition isSpace :: "char \<Rightarrow> bool" where
  "isSpace c = ((of_char c :: nat) \<in> {9, 10, 11, 12, 13, 32})"

fun wordsFrom :: "string \<Rightarrow> string \<Rightarrow> string list" where
  "wordsFrom [] word = (if word = [] then [] else [rev word])"
| "wordsFrom (c # cs) word =
     (if isSpace c then (if word = [] then wordsFrom cs [] else rev word # wordsFrom cs [])
      else wordsFrom cs (c # word))"

definition trimSplit :: "string \<Rightarrow> string list" where
  "trimSplit str = (let ws = wordsFrom str [] in if ws = [] then [[]] else ws)"

text \<open>\<open>Array.prototype.join\<close>.\<close>

fun joinWith :: "string \<Rightarrow> string list \<Rightarrow> string" where
  "joinWith sep [] = []"
| "joinWith sep [x] = x"
| "joinWith sep (x # y # ys) = x @ sep @ joinWith sep (y # ys)"

text \<open>The loop of \<open>getCssSelector\<close>; \<open>path.unshift\<close> puts the selector in front.\<close>

fun selectorLoop :: "node list \<Rightarrow> string list \<Rightarrow> string list" where
  "selectorLoop [] path = path"
| "selectorLoop (current # rest) path =
     (if isBody current \<or> \<not> length path < 5 then path
      else
        let classes = (if className current \<noteq> []
                       then concat (map (\<lambda>c. ''.'' @ c) (take 2 (trimSplit (className current))))
                       else [])
        in selectorLoop rest ((toLowerCase (tagName current) @ classes) # path))"

definition getCssSelector :: "element \<Rightarrow> string" where
  "getCssSelector element =
     (if node_id (self element) \<noteq> [] then ''#'' @ node_id (self element)
      else joinWith '' > '' (selectorLoop (self element # parents element) []))"

definition relevantAttrs :: "string list" where
  "relevantAttrs =
     [''href'', ''src'', ''alt'', ''title'', ''name'', ''type'', ''value'', ''placeholder'']"

definition getRelevantAttributes :: "node \<Rightarrow> (string \<times> string) list" where
  "getRelevantAttributes element =
     List.map_filter
       (\<lambda>attr. case map_of (attributes element) attr of
                  None \<Rightarrow> None
                | Some v \<Rightarrow> Some (attr, v))
       relevantAttrs"

definition isElementVisible :: "node \<Rightarrow> bool" where
  "isElementVisible element =
     (display element \<noteq> ''none'' \<and> visibility element \<noteq> ''hidden'' \<and>
      opacity element \<noteq> ''0'')"

record element_data =
  ed_tagName :: string
  ed_id :: "string option"
  ed_className :: "string option"
  ed_xpath :: string
  ed_selector :: string
  ed_text :: "string option"
  ed_attributes :: "(string \<times> string) list"
  ed_position :: rect
  ed_visible :: bool

text \<open>\<open>x || null\<close> for a string.\<close>

definition orNull :: "string \<Rightarrow> string option" where
  "orNull str = (if str = [] then None else Some str)"

definition getElementData :: "element \<Rightarrow> element_data" where
  "getElementData element =
     \<lparr> ed_tagName = tagName (self element),
       ed_id = orNull (node_id (self element)),
       ed_className = orNull (className (self element)),
       ed_xpath = getXPath element,
       ed_selector = getCssSelector element,
       ed_text = (if textContent (self element) \<noteq> []
                  then Some (take 100 (textContent (self element))) else None),
       ed_attributes = getRelevantAttributes (self element),
       ed_position = boundingClientRect (self element),
       ed_visible = isElementVisible (self element) \<rparr>"






text \<open>The same element with another content of its \<open>value\<close> property.\<close>

definition withValue :: "string \<Rightarrow> element \<Rightarrow> element" where
  "withValue v element = element\<lparr> self := (self element)\<lparr> el_value := Some v \<rparr> \<rparr>"

section \<open>Concrete inputs\<close>

text \<open>A request-sent event, a response event and the two terminal events for the
  request id \<open>x\<close>, and a session that records tab 7.\<close>

definition exRequest :: request_params where
  "exRequest = \<lparr> rq_requestId = ''x'', rq_url = ''https://a.test/'', rq_method = ''GET'',
                  rq_headers = [], rq_postData = None \<rparr>"

definition exResponse :: "int \<Rightarrow> response_params" where
  "exResponse st = \<lparr> rs_requestId = ''x'', rs_status = st, rs_statusText = '''',
                     rs_headers = [], rs_mimeType = ''image/png'' \<rparr>"

definition exFinished :: "string \<Rightarrow> finished_params" where
  "exFinished rid = \<lparr> fn_requestId = rid, fn_encodedDataLength = 10 \<rparr>"


definition noAtob :: "string \<Rightarrow> string option" where
  "noAtob s = None"

definition noParse :: "string \<Rightarrow> unit option" where
  "noParse s = None"

definition exSession :: "unit session" where
  "exSession = \<lparr> isRecording = True, networkLogs = [], attachedTabs = {7},
                  currentRecordingTabId = None, videoStartTime = None,
                  stored_interactionLogs = None, stored_elementSnapshots = None \<rparr>"

text \<open>Request \<open>x\<close> is sent and answered with status 200, then a second request with
  the same id is sent.\<close>

definition exTwoSameId :: "unit log_entry list" where
  "exTwoSameId =
     handleNetworkRequest 3 exRequest 7
       (snd (handleNetworkResponse 2 (exResponse 200) (handleNetworkRequest 1 exRequest 7 [])))"


text \<open>Request \<open>x\<close> is sent and answered; the body cannot be fetched.\<close>

definition exAnswered :: "(int \<times> unit operation) list" where
  "exAnswered =
     [(1, DebuggerEvent 7 (RequestWillBeSent exRequest)),
      (2, DebuggerEvent 7 (ResponseReceived (exResponse 200))),
      (3, BodyFetched (exResponse 200) FetchThrows 0)]"

text \<open>An export document with one network entry at time 1000, interactions at 500 and
  1000 and a snapshot at 500; and one without any log.\<close>

definition exData :: "unit export_data" where
  "exData =
     \<lparr> exportDate = ''2024-01-01T00:00:00.000Z'', x_tabId = 7, x_mode = ''logs'',
       x_networkLogs = handleNetworkRequest 1000 exRequest 7 [],
       x_interactionLogs = [\<lparr> st_timestamp = 500, st_payload = () \<rparr>,
                            \<lparr> st_timestamp = 1000, st_payload = () \<rparr>],
       x_elementSnapshots = [\<lparr> st_timestamp = 500, st_payload = () \<rparr>],
       videoData = \<lparr> hasVideo = False, videoFileName = None, videoSize = None \<rparr>,
       x_summary = \<lparr> totalNetworkRequests = 1, totalInteractions = 2,
                     totalElementSnapshots = 1 \<rparr> \<rparr>"


definition exSmallBlob :: blob where
  "exSmallBlob = \<lparr> blob_size = 5, blob_type = ''video/webm'' \<rparr>"

definition exLargeBlob :: blob where
  "exLargeBlob = \<lparr> blob_size = 10485760, blob_type = ''video/webm'' \<rparr>"

text \<open>An export in video mode for which the blob store holds an empty blob, with a
  stand-in for the JSON functions of the platform that knows one document.\<close>

definition exDocument :: "unit export_data" where
  "exDocument =
     \<lparr> exportDate = ''2024-01-01T00:00:00.000Z'', x_tabId = 7, x_mode = ''video'',
       x_networkLogs = exTwoSameId, x_interactionLogs = [], x_elementSnapshots = [],
       videoData = \<lparr> hasVideo = False, videoFileName = None, videoSize = None \<rparr>,
       x_summary = \<lparr> totalNetworkRequests = 2, totalInteractions = 0,
                     totalElementSnapshots = 0 \<rparr> \<rparr>"

definition exStringify :: "json \<Rightarrow> string" where
  "exStringify j = (if j = toJson (\<lambda>u. JNull) exDocument then ''{document}'' else ''null'')"


definition exEnv :: "unit export_env" where
  "exEnv =
     \<lparr> storageRead = True,
       lookedUp = LookupResolved (IsBlob \<lparr> blob_size = 0, blob_type = ''video/webm'' \<rparr>),
       videoDataUrl = None, nowVideo = 10, isoDate = ''2024-01-01T00:00:00.000Z'',
       nowFiles = 11, toJsonValue = (\<lambda>u. JNull), jsonStringify = exStringify,
       jsonSaved = True, htmlDataUrl = None, nowFirst = 12, nowLast = 12,
       htmlSaved = True \<rparr>"


section \<open>Properties of the request correlator\<close>

lemma findIndex_Some_iff:
  "findIndex P xs = Some i \<longleftrightarrow> i < length xs \<and> P (xs ! i) \<and> (\<forall>j<i. \<not> P (xs ! j))"
proof (induction xs arbitrary: i)
  case Nil
  show ?case by simp
next
  case (Cons x xs)
  show ?case
  proof (cases "P x")
    case True
    then show ?thesis by (cases i) auto
  next
    case False
    show ?thesis
    proof (cases i)
      case 0
      with False show ?thesis by auto
    next
      case (Suc k)
      have "(\<forall>j<Suc k. \<not> P ((x # xs) ! j)) \<longleftrightarrow> (\<forall>j<k. \<not> P (xs ! j))"
        using False by (auto simp: less_Suc_eq_0_disj)
      with False Suc Cons.IH [of k] show ?thesis by auto
    qed
  qed
qed

lemma findIndex_None_iff: "findIndex P xs = None \<longleftrightarrow> (\<forall>x\<in>set xs. \<not> P x)"
  by (induction xs) auto

lemma findIndex_less: "findIndex P xs = Some i \<Longrightarrow> i < length xs"
  by (simp add: findIndex_Some_iff)

lemma length_handleNetworkResponse [simp]:
  "length (snd (handleNetworkResponse now params logs)) = length logs"
  by (simp add: handleNetworkResponse_def split: option.split)

lemma length_storeResponseBody [simp]:
  "length (storeResponseBody atob jsonParse params fetched i logs) = length logs"
  by (simp add: storeResponseBody_def split: body_fetch.split option.split)

lemma storeResponseBody_other:
  "k \<noteq> i \<Longrightarrow> storeResponseBody atob jsonParse params fetched i logs ! k = logs ! k"
  by (simp add: storeResponseBody_def split: body_fetch.split option.split)

lemma storeResponseBody_status:
  "i < length logs \<Longrightarrow>
   map_option status (response (storeResponseBody atob jsonParse params fetched i logs ! i))
     = map_option status (response (logs ! i))"
  by (simp add: storeResponseBody_def split: body_fetch.split option.split)

subsection \<open>The operations that leave the log alone\<close>

lemma networkLogs_stopRecording [simp]:
  "networkLogs (stopRecording tab detached s) = networkLogs s"
  by (simp add: stopRecording_def)

lemma networkLogs_stopVideoCapture [simp]:
  "networkLogs (stopVideoCapture tab removed s) = networkLogs s"
  by (simp add: stopVideoCapture_def)

lemma networkLogs_streamLoop [simp]:
  "networkLogs (streamLoop attempt tab retryCount s) = networkLogs s"
proof (induction attempt tab retryCount s rule: streamLoop.induct)
  case (1 attempt tab retryCount s)
  show ?case
  proof (cases "retryCount \<le> 2")
    case False
    then show ?thesis by (subst streamLoop.simps) simp
  next
    case True
    show ?thesis
    proof (cases "attempt retryCount")
      case StreamResolved
      with True show ?thesis by (subst streamLoop.simps) simp
    next
      case StreamOtherError
      with True show ?thesis by (subst streamLoop.simps) simp
    next
      case (StreamActive removed detached)
      show ?thesis
      proof (cases "Suc retryCount > 2")
        case True
        with \<open>retryCount \<le> 2\<close> StreamActive show ?thesis
          by (subst streamLoop.simps) simp
      next
        case False
        from "1.IH" [OF \<open>retryCount \<le> 2\<close> StreamActive False refl refl]
        have "networkLogs
                (streamLoop attempt tab (Suc retryCount)
                   (if tab \<in> attachedTabs (stopVideoCapture tab removed s)
                    then stopRecording tab detached (stopVideoCapture tab removed s)
                    else stopVideoCapture tab removed s))
              = networkLogs s"
          by simp
        with \<open>retryCount \<le> 2\<close> StreamActive False show ?thesis
          by (subst streamLoop.simps) (simp add: Let_def)
      qed
    qed
  qed
qed

lemma networkLogs_startVideoCapture [simp]:
  "networkLogs (startVideoCapture now tab out s) = networkLogs s"
  by (simp add: startVideoCapture_def Let_def)

subsection \<open>Where the sub-records of an entry come from\<close>

lemma subRecordsFrom_mono:
  "subRecordsFrom R F X logs \<Longrightarrow> R \<subseteq> R' \<Longrightarrow> F \<subseteq> F' \<Longrightarrow> X \<subseteq> X' \<Longrightarrow>
   subRecordsFrom R' F' X' logs"
  unfolding subRecordsFrom_def by blast

lemma subRecordsFrom_update:
  assumes "subRecordsFrom R F X logs"
    and "response e \<noteq> None \<longrightarrow> requestId e \<in> R"
    and "loadingFinished e \<noteq> None \<longrightarrow> requestId e \<in> F"
    and "loadingFailed e \<noteq> None \<longrightarrow> requestId e \<in> X"
  shows "subRecordsFrom R F X (logs[i := e])"
proof -
  have "set (logs[i := e]) \<subseteq> insert e (set logs)" by (rule set_update_subset_insert)
  with assms show ?thesis unfolding subRecordsFrom_def by blast
qed

lemma subRecordsFrom_nth:
  "subRecordsFrom R F X logs \<Longrightarrow> i < length logs \<Longrightarrow>
   (response (logs ! i) \<noteq> None \<longrightarrow> requestId (logs ! i) \<in> R) \<and>
   (loadingFinished (logs ! i) \<noteq> None \<longrightarrow> requestId (logs ! i) \<in> F) \<and>
   (loadingFailed (logs ! i) \<noteq> None \<longrightarrow> requestId (logs ! i) \<in> X)"
  unfolding subRecordsFrom_def by (meson nth_mem)

lemma subRecordsFrom_request:
  "subRecordsFrom R F X logs \<Longrightarrow> subRecordsFrom R F X (handleNetworkRequest now params tab logs)"
  by (auto simp: subRecordsFrom_def handleNetworkRequest_def)

lemma subRecordsFrom_storeBody:
  assumes "subRecordsFrom R F X logs"
  shows "subRecordsFrom R F X (storeResponseBody atob jsonParse params fetched i logs)"
proof -
  have "subRecordsFrom R F X (logs[i := (logs ! i)\<lparr> response := Some r' \<rparr>])"
    if "i < length logs" and "response (logs ! i) = Some r" for r r'
    using subRecordsFrom_nth [OF assms that(1)] that(2) assms
    by (intro subRecordsFrom_update) simp_all
  with assms show ?thesis
    by (simp add: storeResponseBody_def split: body_fetch.split option.split)
qed

lemma subRecordsFrom_response:
  assumes "subRecordsFrom R F X logs"
  shows "subRecordsFrom (insert (rs_requestId params) R) F X
           (snd (handleNetworkResponse now params logs))"
proof (cases "findIndex (isRequestFor (rs_requestId params)) logs")
  case None
  with assms show ?thesis
    by (auto simp: handleNetworkResponse_def intro: subRecordsFrom_mono)
next
  case (Some i)
  then have i: "i < length logs" "requestId (logs ! i) = rs_requestId params"
    by (simp_all add: findIndex_Some_iff isRequestFor_def)
  have base: "subRecordsFrom (insert (rs_requestId params) R) F X logs"
    using assms by (auto intro: subRecordsFrom_mono)
  have "subRecordsFrom (insert (rs_requestId params) R) F X
          (logs[i := (logs ! i)\<lparr> response := Some r \<rparr>])" for r
    using subRecordsFrom_nth [OF assms i(1)] i(2) base
    by (intro subRecordsFrom_update) simp_all
  with Some show ?thesis by (simp add: handleNetworkResponse_def)
qed

lemma subRecordsFrom_finished:
  assumes "subRecordsFrom R F X logs"
  shows "subRecordsFrom R (insert (fn_requestId params) F) X
           (handleNetworkLoadingFinished now params logs)"
proof (cases "findIndex (isRequestFor (fn_requestId params)) logs")
  case None
  with assms show ?thesis
    by (auto simp: handleNetworkLoadingFinished_def intro: subRecordsFrom_mono)
next
  case (Some i)
  then have i: "i < length logs" "requestId (logs ! i) = fn_requestId params"
    by (simp_all add: findIndex_Some_iff isRequestFor_def)
  have base: "subRecordsFrom R (insert (fn_requestId params) F) X logs"
    using assms by (auto intro: subRecordsFrom_mono)
  have "subRecordsFrom R (insert (fn_requestId params) F) X
          (logs[i := (logs ! i)\<lparr> loadingFinished := Some r \<rparr>])" for r
    using subRecordsFrom_nth [OF assms i(1)] i(2) base
    by (intro subRecordsFrom_update) simp_all
  with Some show ?thesis by (simp add: handleNetworkLoadingFinished_def)
qed

lemma subRecordsFrom_failed:
  assumes "subRecordsFrom R F X logs"
  shows "subRecordsFrom R F (insert (fl_requestId params) X)
           (handleNetworkLoadingFailed now params logs)"
proof (cases "findIndex (isRequestFor (fl_requestId params)) logs")
  case None
  with assms show ?thesis
    by (auto simp: handleNetworkLoadingFailed_def intro: subRecordsFrom_mono)
next
  case (Some i)
  then have i: "i < length logs" "requestId (logs ! i) = fl_requestId params"
    by (simp_all add: findIndex_Some_iff isRequestFor_def)
  have base: "subRecordsFrom R F (insert (fl_requestId params) X) logs"
    using assms by (auto intro: subRecordsFrom_mono)
  have "subRecordsFrom R F (insert (fl_requestId params) X)
          (logs[i := (logs ! i)\<lparr> loadingFailed := Some r \<rparr>])" for r
    using subRecordsFrom_nth [OF assms i(1)] i(2) base
    by (intro subRecordsFrom_update) simp_all
  with Some show ?thesis by (simp add: handleNetworkLoadingFailed_def)
qed

lemma subRecordsFrom_perform:
  assumes "subRecordsFrom R F X (networkLogs s)"
  shows "subRecordsFrom (R \<union> opResponded op) (F \<union> opFinished op) (X \<union> opFailed op)
           (networkLogs (perform atob jsonParse now op s))"
proof (cases op)
  case (DebuggerEvent source ev)
  show ?thesis
  proof (cases "source \<in> attachedTabs s")
    case False
    with DebuggerEvent assms show ?thesis
      by (auto simp: onDebuggerEvent_def intro: subRecordsFrom_mono)
  next
    case True
    show ?thesis
    proof (cases ev)
      case (RequestWillBeSent params)
      with DebuggerEvent True subRecordsFrom_request [OF assms] show ?thesis
        by (simp add: onDebuggerEvent_def opResponded_def opFinished_def opFailed_def)
    next
      case (ResponseReceived params)
      with DebuggerEvent True subRecordsFrom_response [OF assms] show ?thesis
        by (simp add: onDebuggerEvent_def opResponded_def opFinished_def opFailed_def)
    next
      case (LoadingFinished params)
      with DebuggerEvent True subRecordsFrom_finished [OF assms] show ?thesis
        by (simp add: onDebuggerEvent_def opResponded_def opFinished_def opFailed_def)
    next
      case (LoadingFailed params)
      with DebuggerEvent True subRecordsFrom_failed [OF assms] show ?thesis
        by (simp add: onDebuggerEvent_def opResponded_def opFinished_def opFailed_def)
    next
      case OtherMethod
      with DebuggerEvent True assms show ?thesis
        by (simp add: onDebuggerEvent_def opResponded_def opFinished_def opFailed_def)
    qed
  qed
next
  case (BodyFetched params fetched requestIndex)
  with subRecordsFrom_storeBody [OF assms] show ?thesis
    by (simp add: onBodyFetched_def opResponded_def opFinished_def opFailed_def)
next
  case (StartRecording tab ok)
  with assms show ?thesis
    by (simp add: startRecording_def opResponded_def opFinished_def opFailed_def
                  subRecordsFrom_def)
next
  case ClearLogs
  then show ?thesis by (simp add: clearAllLogs_def subRecordsFrom_def)
qed (use assms in \<open>simp_all add: opResponded_def opFinished_def opFailed_def
       logInteractionMessage_def captureElementsStored_def onDetach_def onTabRemoved_def\<close>)

lemma set_respondedIds_Cons:
  "set (respondedIds ((now, op) # ops)) = opResponded op \<union> set (respondedIds ops)"
  by (cases "respondedId op") (auto simp: respondedIds_def opResponded_def)

lemma set_finishedIds_Cons:
  "set (finishedIds ((now, op) # ops)) = opFinished op \<union> set (finishedIds ops)"
  by (cases "finishedId op") (auto simp: finishedIds_def opFinished_def)

lemma set_failedIds_Cons:
  "set (failedIds ((now, op) # ops)) = opFailed op \<union> set (failedIds ops)"
  by (cases "failedId op") (auto simp: failedIds_def opFailed_def)

lemma subRecordsFrom_run:
  "subRecordsFrom R F X (networkLogs s) \<Longrightarrow>
   subRecordsFrom (R \<union> set (respondedIds ops)) (F \<union> set (finishedIds ops))
     (X \<union> set (failedIds ops)) (networkLogs (run atob jsonParse ops s))"
proof (induction ops arbitrary: s R F X)
  case Nil
  then show ?case by (simp add: run_def respondedIds_def finishedIds_def failedIds_def)
next
  case (Cons a ops)
  obtain now op where a: "a = (now, op)" by (cases a)
  from Cons.IH [OF subRecordsFrom_perform [OF Cons.prems, of op atob jsonParse now]]
  show ?case
    by (simp add: a run_def set_respondedIds_Cons set_finishedIds_Cons set_failedIds_Cons
                  Un_assoc)
qed

lemma subRecordsFrom_fresh:
  "(\<forall>e\<in>set logs. response e = None \<and> loadingFinished e = None \<and> loadingFailed e = None) \<Longrightarrow>
   subRecordsFrom {} {} {} logs"
  by (simp add: subRecordsFrom_def)


subsection \<open>Response received\<close>

text \<open>
  C1, as the code has it.  A response event is attached to the first entry of the
  log that has the event's request id (and the type \<open>request\<close>), whether that entry
  already has a response or not; every other entry stays as it was, also after the
  body has been stored; when no entry has the id, the log is unchanged.  And after
  any sequence of operations on a log that had no responses, an entry has a
  \<open>response\<close> only if a response event with its request id was among them.
\<close>

theorem response_goes_to_first_match:
  "(\<forall>i. i < length logs \<and> isRequestFor (rs_requestId params) (logs ! i) \<and>
         (\<forall>j<i. \<not> isRequestFor (rs_requestId params) (logs ! j)) \<longrightarrow>
         handleNetworkResponse now params logs =
           (Some i, logs[i := (logs ! i)\<lparr> response := Some (newResponse now params) \<rparr>]) \<and>
         (let done = handleNetworkResponseDone atob jsonParse now params fetched logs
          in length done = length logs \<and>
             map_option status (response (done ! i)) = Some (rs_status params) \<and>
             (\<forall>k<length logs. k \<noteq> i \<longrightarrow> done ! k = logs ! k))) \<and>
   ((\<forall>e\<in>set logs. \<not> isRequestFor (rs_requestId params) e) \<longrightarrow>
      handleNetworkResponse now params logs = (None, logs) \<and>
      handleNetworkResponseDone atob jsonParse now params fetched logs = logs) \<and>
   ((\<forall>e\<in>set (networkLogs s). response e = None) \<longrightarrow>
      (\<forall>e\<in>set (networkLogs (run atob jsonParse ops s)).
          response e \<noteq> None \<longrightarrow> requestId e \<in> set (respondedIds ops)))"
proof (intro conjI allI impI)
  fix i
  assume h: "i < length logs \<and> isRequestFor (rs_requestId params) (logs ! i) \<and>
             (\<forall>j<i. \<not> isRequestFor (rs_requestId params) (logs ! j))"
  then have fi: "findIndex (isRequestFor (rs_requestId params)) logs = Some i"
    by (simp add: findIndex_Some_iff)
  show first: "handleNetworkResponse now params logs =
      (Some i, logs[i := (logs ! i)\<lparr> response := Some (newResponse now params) \<rparr>])"
    by (simp add: handleNetworkResponse_def fi)
  define logs' where "logs' = logs[i := (logs ! i)\<lparr> response := Some (newResponse now params) \<rparr>]"
  have done_eq: "handleNetworkResponseDone atob jsonParse now params fetched logs
                 = storeResponseBody atob jsonParse params fetched i logs'"
    by (simp add: handleNetworkResponseDone_def first logs'_def)
  have len: "length logs' = length logs" by (simp add: logs'_def)
  have st: "map_option status (response (logs' ! i)) = Some (rs_status params)"
    using h by (simp add: logs'_def newResponse_def)
  have other: "\<forall>k<length logs. k \<noteq> i \<longrightarrow> logs' ! k = logs ! k"
    by (simp add: logs'_def)
  show "let done = handleNetworkResponseDone atob jsonParse now params fetched logs
        in length done = length logs \<and>
           map_option status (response (done ! i)) = Some (rs_status params) \<and>
           (\<forall>k<length logs. k \<noteq> i \<longrightarrow> done ! k = logs ! k)"
    unfolding Let_def done_eq
    using h len st other by (simp add: storeResponseBody_other storeResponseBody_status)
next
  assume "\<forall>e\<in>set logs. \<not> isRequestFor (rs_requestId params) e"
  then have fi: "findIndex (isRequestFor (rs_requestId params)) logs = None"
    by (simp add: findIndex_None_iff)
  show "handleNetworkResponse now params logs = (None, logs)"
    by (simp add: handleNetworkResponse_def fi)
  then show "handleNetworkResponseDone atob jsonParse now params fetched logs = logs"
    by (simp add: handleNetworkResponseDone_def)
next
  assume "\<forall>e\<in>set (networkLogs s). response e = None"
  then have "subRecordsFrom {} UNIV UNIV (networkLogs s)"
    by (simp add: subRecordsFrom_def)
  from subRecordsFrom_run [OF this, of ops atob jsonParse]
  show "\<forall>e\<in>set (networkLogs (run atob jsonParse ops s)).
          response e \<noteq> None \<longrightarrow> requestId e \<in> set (respondedIds ops)"
    by (simp add: subRecordsFrom_def)
qed

theorem response_goes_to_first_match_witness:
  "(0 < length exTwoSameId \<and> isRequestFor ''x'' (exTwoSameId ! 0) \<and>
    handleNetworkResponse 4 (exResponse 404) exTwoSameId =
      (Some 0, exTwoSameId[0 := (exTwoSameId ! 0)\<lparr> response :=
                                  Some (newResponse 4 (exResponse 404)) \<rparr>])) \<and>
   handleNetworkResponse 4 (exResponse 404) ([] :: unit log_entry list) = (None, []) \<and>
   networkLogs exSession = [] \<and>
   map requestId (filter (\<lambda>e. response e \<noteq> None)
                    (networkLogs (run noAtob noParse exAnswered exSession))) = [''x''] \<and>
   ''x'' \<in> set (respondedIds exAnswered)"
proof -
  have a: "0 < length exTwoSameId \<and> isRequestFor (rs_requestId (exResponse 404)) (exTwoSameId ! 0)
           \<and> (\<forall>j<0::nat. \<not> isRequestFor (rs_requestId (exResponse 404)) (exTwoSameId ! j))"
    by (simp add: exTwoSameId_def handleNetworkRequest_def handleNetworkResponse_def
                  exRequest_def exResponse_def isRequestFor_def)
  have b: "\<forall>e\<in>set ([] :: unit log_entry list). \<not> isRequestFor (rs_requestId (exResponse 404)) e"
    by simp
  have c: "networkLogs exSession = []"
    by (simp add: exSession_def)
  then have c': "\<forall>e\<in>set (networkLogs exSession). response e = None"
    by simp
  have d: "map requestId (filter (\<lambda>e. response e \<noteq> None)
             (networkLogs (run noAtob noParse exAnswered exSession))) = [''x'']"
    by (simp add: run_def exAnswered_def exSession_def onDebuggerEvent_def onBodyFetched_def
                  handleNetworkRequest_def handleNetworkResponse_def storeResponseBody_def
                  wantsBody_def isRequestFor_def exRequest_def exResponse_def)
  have inst1: "handleNetworkResponse 4 (exResponse 404) exTwoSameId =
      (Some 0, exTwoSameId[0 := (exTwoSameId ! 0)\<lparr> response :=
                                  Some (newResponse 4 (exResponse 404)) \<rparr>])"
    using a response_goes_to_first_match
            [of exTwoSameId "exResponse 404" 4 noAtob noParse FetchThrows exSession "[]"]
    by blast
  have inst2: "handleNetworkResponse 4 (exResponse 404) ([] :: unit log_entry list) = (None, [])"
    using b response_goes_to_first_match
            [of "[]" "exResponse 404" 4 noAtob noParse FetchThrows exSession "[]"]
    by blast
  have inst3: "\<forall>e\<in>set (networkLogs (run noAtob noParse exAnswered exSession)).
                 response e \<noteq> None \<longrightarrow> requestId e \<in> set (respondedIds exAnswered)"
    using c' response_goes_to_first_match
            [of "[]" "exResponse 404" 4 noAtob noParse FetchThrows exSession exAnswered]
    by blast
  have e: "''x'' \<in> set (respondedIds exAnswered)"
  proof -
    have "''x'' \<in> set (map requestId (filter (\<lambda>e. response e \<noteq> None)
             (networkLogs (run noAtob noParse exAnswered exSession))))"
      unfolding d by simp
    with inst3 show ?thesis by auto
  qed
  from a inst1 inst2 c d e show ?thesis
    by (simp add: exResponse_def)
qed

text \<open>
  C1 as stated fails.  After request \<open>x\<close> was sent and answered with status 200 and a
  second request \<open>x\<close> was sent, a response event with status 404 is stored in the first
  entry, which already had a response; the second entry, the one still without a
  response, stays without one.
\<close>

theorem response_to_unanswered_entry_counterexample:
  "map_option status (response (exTwoSameId ! 0)) = Some 200 \<and>
   response (exTwoSameId ! 1) = None \<and>
   requestId (exTwoSameId ! 0) = ''x'' \<and> requestId (exTwoSameId ! 1) = ''x'' \<and>
   map_option status
     (response (snd (handleNetworkResponse 4 (exResponse 404) exTwoSameId) ! 0)) = Some 404 \<and>
   response (snd (handleNetworkResponse 4 (exResponse 404) exTwoSameId) ! 1) = None"
  by (simp add: exTwoSameId_def handleNetworkRequest_def handleNetworkResponse_def
                exRequest_def exResponse_def isRequestFor_def newResponse_def)

subsection \<open>Terminal sub-records\<close>





subsection \<open>Entries are kept\<close>

lemma sameRequest_refl [simp]: "sameRequest e e"
  by (simp add: sameRequest_def)

lemma entriesKept_refl [simp]: "entriesKept logs logs"
  by (simp add: entriesKept_def list_all2_same)

lemma entriesKept_append: "entriesKept logs (logs @ extra)"
  by (simp add: entriesKept_def list_all2_same)

lemma entriesKept_update:
  assumes "i < length logs" and "sameRequest (logs ! i) e"
  shows "entriesKept logs (logs[i := e])"
proof -
  have "list_all2 sameRequest logs (logs[i := e])"
    unfolding list_all2_conv_all_nth
  proof (intro conjI allI impI)
    show "length logs = length (logs[i := e])" by simp
  next
    fix k assume "k < length logs"
    with assms show "sameRequest (logs ! k) (logs[i := e] ! k)"
      by (cases "k = i") simp_all
  qed
  then show ?thesis by (simp add: entriesKept_def)
qed

lemma entriesKept_request: "entriesKept logs (handleNetworkRequest now params tab logs)"
  by (simp add: handleNetworkRequest_def entriesKept_append)

lemma entriesKept_storeBody:
  "entriesKept logs (storeResponseBody atob jsonParse params fetched i logs)"
  by (auto simp: storeResponseBody_def sameRequest_def intro!: entriesKept_update
           split: body_fetch.split option.split)

lemma entriesKept_response:
  "entriesKept logs (snd (handleNetworkResponse now params logs))"
  by (auto simp: handleNetworkResponse_def sameRequest_def
           intro!: entriesKept_update dest: findIndex_less split: option.split)

lemma entriesKept_finished: "entriesKept logs (handleNetworkLoadingFinished now params logs)"
  by (auto simp: handleNetworkLoadingFinished_def sameRequest_def
           intro!: entriesKept_update dest: findIndex_less split: option.split)

lemma entriesKept_failed: "entriesKept logs (handleNetworkLoadingFailed now params logs)"
  by (auto simp: handleNetworkLoadingFailed_def sameRequest_def
           intro!: entriesKept_update dest: findIndex_less split: option.split)

lemma entriesKept_onDebuggerEvent:
  "entriesKept (networkLogs s) (networkLogs (onDebuggerEvent now source ev s))"
  by (cases ev)
     (simp_all add: onDebuggerEvent_def entriesKept_request entriesKept_response
                    entriesKept_finished entriesKept_failed)

text \<open>
  C3, as the code has it.  The log is emptied by \<open>clearAllLogs\<close> and by a
  \<open>startRecording\<close> whose debugger calls succeed (it assigns \<open>networkLogs = []\<close>).
  Every other operation keeps every entry of the log in place.
\<close>

theorem entries_kept_by_other_operations:
  assumes "op \<noteq> ClearLogs" and "\<forall>tab. op \<noteq> StartRecording tab True"
  shows "entriesKept (networkLogs s) (networkLogs (perform atob jsonParse now op s))"
proof (cases op)
  case (StartRecording tab ok)
  with assms(2) have "\<not> ok" by auto
  with StartRecording show ?thesis by (simp add: startRecording_def)
next
  case ClearLogs
  with assms(1) show ?thesis by simp
next
  case (DebuggerEvent source ev)
  then show ?thesis by (simp add: entriesKept_onDebuggerEvent)
next
  case (BodyFetched params fetched requestIndex)
  then show ?thesis by (simp add: onBodyFetched_def entriesKept_storeBody)
qed (simp_all add: logInteractionMessage_def captureElementsStored_def onDetach_def
                   onTabRemoved_def)

theorem entries_kept_by_other_operations_witness:
  "DebuggerEvent 7 (LoadingFinished (exFinished ''x'')) \<noteq> (ClearLogs :: unit operation) \<and>
   (\<forall>tab. DebuggerEvent 7 (LoadingFinished (exFinished ''x'')) \<noteq> (StartRecording tab True :: unit operation)) \<and>
   entriesKept exTwoSameId
     (networkLogs (perform noAtob noParse 5 (DebuggerEvent 7 (LoadingFinished (exFinished ''x'')))
                     (exSession\<lparr> networkLogs := exTwoSameId \<rparr>)))"
proof -
  have a: "DebuggerEvent 7 (LoadingFinished (exFinished ''x'')) \<noteq> (ClearLogs :: unit operation)"
    by simp
  have b: "\<forall>tab. DebuggerEvent 7 (LoadingFinished (exFinished ''x''))
                 \<noteq> (StartRecording tab True :: unit operation)"
    by simp
  from a b entries_kept_by_other_operations [OF a b, of "exSession\<lparr> networkLogs := exTwoSameId \<rparr>" noAtob noParse 5]
  show ?thesis by simp
qed

text \<open>
  C3 as stated fails: starting a new recording session on tab 7 removes the two entries
  that were in the log.
\<close>

theorem start_recording_drops_entries_counterexample:
  "length (networkLogs (exSession\<lparr> networkLogs := exTwoSameId \<rparr>)) = 2 \<and>
   networkLogs (perform noAtob noParse 5 (StartRecording 7 True)
                  (exSession\<lparr> networkLogs := exTwoSameId \<rparr>)) = [] \<and>
   \<not> entriesKept (networkLogs (exSession\<lparr> networkLogs := exTwoSameId \<rparr>))
        (networkLogs (perform noAtob noParse 5 (StartRecording 7 True)
                        (exSession\<lparr> networkLogs := exTwoSameId \<rparr>)))"
  by (simp add: startRecording_def entriesKept_def exTwoSameId_def handleNetworkRequest_def
                handleNetworkResponse_def isRequestFor_def exRequest_def)

subsection \<open>Request sent\<close>

text \<open>
  C4, as the code has it.  A request-sent event whose request id is already in the log
  appends a new, pending entry at the end of the log and changes no existing entry, so
  the log then holds one more entry with that id.  The position in the log is all that
  tells the new entry from the others: an entry has no sequence number.
\<close>

theorem request_sent_appends:
  assumes "\<exists>e\<in>set logs. requestId e = rq_requestId params"
  shows "length (handleNetworkRequest now params tab logs) = Suc (length logs) \<and>
         (\<forall>i<length logs. handleNetworkRequest now params tab logs ! i = logs ! i) \<and>
         requestId (handleNetworkRequest now params tab logs ! length logs) = rq_requestId params \<and>
         timestamp (handleNetworkRequest now params tab logs ! length logs) = now \<and>
         response (handleNetworkRequest now params tab logs ! length logs) = None \<and>
         length (filter (\<lambda>e. requestId e = rq_requestId params)
                   (handleNetworkRequest now params tab logs))
           = Suc (length (filter (\<lambda>e. requestId e = rq_requestId params) logs))"
  by (simp add: handleNetworkRequest_def nth_append)

theorem request_sent_appends_witness:
  "(\<exists>e\<in>set exTwoSameId. requestId e = rq_requestId exRequest) \<and>
   length (handleNetworkRequest 9 exRequest 7 exTwoSameId) = 3 \<and>
   handleNetworkRequest 9 exRequest 7 exTwoSameId ! 0 = exTwoSameId ! 0 \<and>
   handleNetworkRequest 9 exRequest 7 exTwoSameId ! 1 = exTwoSameId ! 1 \<and>
   requestId (handleNetworkRequest 9 exRequest 7 exTwoSameId ! 2) = ''x''"
proof -
  have len: "length exTwoSameId = 2"
    by (simp add: exTwoSameId_def handleNetworkRequest_def)
  have a: "\<exists>e\<in>set exTwoSameId. requestId e = rq_requestId exRequest"
    by (simp add: exTwoSameId_def handleNetworkRequest_def exRequest_def)
  from a len request_sent_appends [OF a, of 9 7] show ?thesis
    by (simp add: exRequest_def)
qed

text \<open>
  C4 as stated fails: the entry has no sequence number.  Two request-sent events
  with the same parameters that are handled within the same millisecond leave two
  entries that are equal in every field.
\<close>

theorem same_id_entries_equal_counterexample:
  "length (handleNetworkRequest 1 exRequest 7
             (handleNetworkRequest 1 exRequest 7 ([] :: unit log_entry list))) = 2 \<and>
   handleNetworkRequest 1 exRequest 7
     (handleNetworkRequest 1 exRequest 7 ([] :: unit log_entry list)) ! 0
   = handleNetworkRequest 1 exRequest 7
       (handleNetworkRequest 1 exRequest 7 ([] :: unit log_entry list)) ! 1"
  by (simp add: handleNetworkRequest_def)

section \<open>Properties of the aggregation and of the video document\<close>

lemma insertSorted_insort:
  "insertSorted (\<lambda>a b. f a - f b) x xs = insort_key f x xs"
  by (induction xs) auto

lemma arraySort_sort_key: "arraySort byTimestamp xs = sort_key ev_timestamp xs"
  unfolding arraySort_def
  by (induction xs) (simp_all add: byTimestamp_def [abs_def] insertSorted_insort)

lemma allEvents_sortedTimeline:
  "allEvents (sortedTimeline now1 now2 data) = sort_key ev_timestamp (collectEvents data)"
  by (simp add: sortedTimeline_def Let_def arraySort_sort_key)

lemma video_timeline_same:
  "vt_timeline (generateVideoTimelineHTML readAsDataURL now1 now2 data videoBlob fileName)
     = generateImprovedTimelineHTML now1 now2 data"
  by (simp add: generateVideoTimelineHTML_def generateImprovedTimelineHTML_def Let_def)



text \<open>
  C5.  For any three logs, the sorted list of events is non-decreasing in the
  timestamp; it is stable (for every timestamp, the events with that timestamp are in
  the order they have in the concatenation of the network log, the interaction log and
  the snapshots); and it holds exactly the events of that concatenation.
\<close>

theorem merged_events_sorted_and_stable:
  "sorted (map ev_timestamp (allEvents (generateImprovedTimelineHTML now1 now2 data))) \<and>
   (\<forall>t. filter (\<lambda>e. ev_timestamp e = t) (allEvents (generateImprovedTimelineHTML now1 now2 data))
        = filter (\<lambda>e. ev_timestamp e = t) (collectEvents data)) \<and>
   mset (allEvents (generateImprovedTimelineHTML now1 now2 data)) = mset (collectEvents data) \<and>
   map ev_data (collectEvents data)
     = map NetworkLog (x_networkLogs data) @ map InteractionLog (x_interactionLogs data) @
       map Snapshot (x_elementSnapshots data)"
  by (simp add: generateImprovedTimelineHTML_def allEvents_sortedTimeline sort_key_stable
                collectEvents_def comp_def)


theorem merged_events_sorted_and_stable_witness:
  "map (\<lambda>e. (ev_type e, ev_timestamp e))
       (allEvents (generateImprovedTimelineHTML 1 2 exData))
     = [(''interaction'', 500), (''snapshot'', 500), (''network'', 1000), (''interaction'', 1000)] \<and>
   sorted (map ev_timestamp (allEvents (generateImprovedTimelineHTML 1 2 exData))) \<and>
   map ev_type (filter (\<lambda>e. ev_timestamp e = 1000)
                  (allEvents (generateImprovedTimelineHTML 1 2 exData)))
     = map ev_type (filter (\<lambda>e. ev_timestamp e = 1000) (collectEvents exData))"
proof -
  have "map (\<lambda>e. (ev_type e, ev_timestamp e))
          (allEvents (generateImprovedTimelineHTML 1 2 exData))
        = [(''interaction'', 500), (''snapshot'', 500), (''network'', 1000),
           (''interaction'', 1000)]"
    by (simp add: generateImprovedTimelineHTML_def sortedTimeline_def Let_def arraySort_def
                  collectEvents_def byTimestamp_def exData_def handleNetworkRequest_def)
  with merged_events_sorted_and_stable [of 1 2 exData] show ?thesis
    by simp
qed



subsection \<open>Video embedding\<close>

text \<open>
  C7, as the code has it.  With a video blob below \<open>maxDataUrlSize\<close> (10 MiB) whose
  conversion to a data URL succeeds, the document has the \<open>video\<close> element with the
  data URL as its source; when the conversion fails it has the placeholder.  With a
  blob at or above the limit the \<open>video\<close> element refers to the file name (or to
  \<open>video.webm\<close>).  Without a blob the document has the placeholder, no controls and
  no \<open>video\<close> element.
\<close>

theorem video_embedding_by_size:
  "(\<forall>b. videoBlob = Some b \<and> blob_size b < maxDataUrlSize \<and> truthy readAsDataURL \<longrightarrow>
        videoSrc (generateVideoTimelineHTML readAsDataURL now1 now2 data videoBlob fileName)
          = readAsDataURL \<and>
        container (generateVideoTimelineHTML readAsDataURL now1 now2 data videoBlob fileName)
          = VideoElement (the readAsDataURL)) \<and>
   (\<forall>b. videoBlob = Some b \<and> blob_size b < maxDataUrlSize \<and> \<not> truthy readAsDataURL \<longrightarrow>
        (\<exists>text. container (generateVideoTimelineHTML readAsDataURL now1 now2 data videoBlob fileName)
                  = Placeholder text)) \<and>
   (\<forall>b. videoBlob = Some b \<and> maxDataUrlSize \<le> blob_size b \<longrightarrow>
        container (generateVideoTimelineHTML readAsDataURL now1 now2 data videoBlob fileName)
          = VideoElement (if truthy fileName then the fileName else ''video.webm'')) \<and>
   (videoBlob = None \<longrightarrow>
        (\<exists>text. container (generateVideoTimelineHTML readAsDataURL now1 now2 data videoBlob fileName)
                  = Placeholder text) \<and>
        \<not> controls (generateVideoTimelineHTML readAsDataURL now1 now2 data videoBlob fileName) \<and>
        \<not> hasVideoScript (generateVideoTimelineHTML readAsDataURL now1 now2 data videoBlob fileName))"
  by (auto simp: generateVideoTimelineHTML_def videoSource_def videoContainer_def Let_def
                 truthy_def split: option.splits)

theorem video_embedding_by_size_witness:
  "blob_size exSmallBlob < maxDataUrlSize \<and> truthy (Some ''data:video/webm;base64,AAAA'') \<and>
   container (generateVideoTimelineHTML (Some ''data:video/webm;base64,AAAA'') 1 2 exData
                (Some exSmallBlob) (Some ''v.webm''))
     = VideoElement ''data:video/webm;base64,AAAA'' \<and>
   maxDataUrlSize \<le> blob_size exLargeBlob \<and>
   container (generateVideoTimelineHTML (Some ''data:video/webm;base64,AAAA'') 1 2 exData
                (Some exLargeBlob) (Some ''v.webm''))
     = VideoElement ''v.webm'' \<and>
   \<not> controls (generateVideoTimelineHTML (Some ''data:video/webm;base64,AAAA'') 1 2 exData
                  None None)"
proof -
  have a: "blob_size exSmallBlob < maxDataUrlSize"
    and b: "truthy (Some ''data:video/webm;base64,AAAA'')"
    and c: "maxDataUrlSize \<le> blob_size exLargeBlob"
    and d: "truthy (Some ''v.webm'')"
    by (simp_all add: exSmallBlob_def exLargeBlob_def maxDataUrlSize_def truthy_def)
  from a b c d
    video_embedding_by_size [of "Some exSmallBlob" "Some ''data:video/webm;base64,AAAA''"
                                1 2 exData "Some ''v.webm''"]
    video_embedding_by_size [of "Some exLargeBlob" "Some ''data:video/webm;base64,AAAA''"
                                1 2 exData "Some ''v.webm''"]
    video_embedding_by_size [of None "Some ''data:video/webm;base64,AAAA''" 1 2 exData None]
  show ?thesis by simp
qed

text \<open>
  C7 as stated fails: for a blob of 5 bytes whose \<open>FileReader\<close> reports an error the
  document has the placeholder, not an embedded video.
\<close>

theorem small_video_not_embedded_counterexample:
  "blob_size exSmallBlob < maxDataUrlSize \<and>
   container (generateVideoTimelineHTML None 1 2 exData (Some exSmallBlob) (Some ''v.webm''))
     = Placeholder ''Video file: v.webm (place in same directory as this HTML file)'' \<and>
   controls (generateVideoTimelineHTML None 1 2 exData (Some exSmallBlob) (Some ''v.webm''))
     = False"
  by (simp add: generateVideoTimelineHTML_def videoSource_def videoContainer_def Let_def
                truthy_def exSmallBlob_def maxDataUrlSize_def)

section \<open>Properties of the export\<close>









text \<open>
  C10.  In a video-mode export, when the blob store yields nothing, a value that is
  not a \<open>Blob\<close>, or a \<open>Blob\<close> of size 0, the export document has
  \<open>videoData = { hasVideo: false }\<close>, no download of a video file is started, the JSON
  file is saved first and, once that download has succeeded, the HTML document (with
  the placeholder instead of a video) is saved as well.
\<close>

theorem invalid_video_exported_as_absent:
  assumes "storageRead env"
    and "lookedUp env = LookupResolved v"
    and "v = NothingStored \<or> v = NotABlob \<or> (\<exists>b. v = IsBlob b \<and> blob_size b = 0)"
  shows "\<exists>d. exported (exportAllLogs env tab ''video'' s) = Some d \<and>
           videoData d = \<lparr> hasVideo = False, videoFileName = None, videoSize = None \<rparr> \<and>
           (\<forall>dataUrl name. VideoFile dataUrl name
                              \<notin> set (downloads (exportAllLogs env tab ''video'' s))) \<and>
           downloads (exportAllLogs env tab ''video'' s) =
             JsonFile (jsonStringify env (toJson (toJsonValue env) d))
               (''capture_all_logs_'' @ showInt (nowFiles env) @ ''.json'') #
             (if jsonSaved env
              then [HtmlFile
                      (VideoDocument
                         (generateVideoTimelineHTML (htmlDataUrl env) (nowFirst env)
                            (nowLast env) d None None))
                      (''capture_all_timeline_'' @ showInt (nowFiles env) @ ''.html'')]
              else []) \<and>
           container (generateVideoTimelineHTML (htmlDataUrl env) (nowFirst env)
                        (nowLast env) d None None)
             = Placeholder ''Enable video mode to capture screen recording'' \<and>
           completed (exportAllLogs env tab ''video'' s) = (jsonSaved env \<and> htmlSaved env)"
proof -
  from assms(2,3) have rv: "retrieveVideo env ''video'' = Some (None, None, [])"
    by (auto simp: retrieveVideo_def)
  have ph: "container (generateVideoTimelineHTML r n1 n2 d None None)
              = Placeholder ''Enable video mode to capture screen recording''" for r n1 n2
    and d :: "'a export_data"
    by (simp add: generateVideoTimelineHTML_def videoSource_def videoContainer_def truthy_def)
  show ?thesis
    using assms(1) rv ph by (simp add: exportAllLogs_def Let_def)
qed

theorem invalid_video_exported_as_absent_witness:
  "storageRead exEnv \<and>
   lookedUp exEnv = LookupResolved (IsBlob \<lparr> blob_size = 0, blob_type = ''video/webm'' \<rparr>) \<and>
   (\<exists>d. exported (exportAllLogs exEnv 7 ''video'' exSession) = Some d \<and>
        videoData d = \<lparr> hasVideo = False, videoFileName = None, videoSize = None \<rparr> \<and>
        length (downloads (exportAllLogs exEnv 7 ''video'' exSession)) = 2 \<and>
        completed (exportAllLogs exEnv 7 ''video'' exSession))"
proof -
  have a: "storageRead exEnv"
    and b: "lookedUp exEnv = LookupResolved (IsBlob \<lparr> blob_size = 0, blob_type = ''video/webm'' \<rparr>)"
    and c: "jsonSaved exEnv" "htmlSaved exEnv"
    by (simp_all add: exEnv_def)
  have d: "IsBlob \<lparr> blob_size = 0, blob_type = ''video/webm'' \<rparr> = NothingStored \<or>
           IsBlob \<lparr> blob_size = 0, blob_type = ''video/webm'' \<rparr> = NotABlob \<or>
           (\<exists>b. IsBlob \<lparr> blob_size = 0, blob_type = ''video/webm'' \<rparr> = IsBlob b \<and> blob_size b = 0)"
    by simp
  from invalid_video_exported_as_absent [OF a b d, of 7 exSession] a b c
  show ?thesis by auto
qed

section \<open>Properties of the recorded input events\<close>

lemma getElementData_withValue [simp]:
  "getElementData (withValue v e) = getElementData e"
  by (simp add: getElementData_def withValue_def getXPath_def getCssSelector_def
                getRelevantAttributes_def isElementVisible_def Let_def)

lemma el_value_withValue [simp]: "el_value (self (withValue v e)) = Some v"
  by (simp add: withValue_def)



end
